theory Spec2Isabelle
  imports Main "HOL-Library.Word"
begin

section \<open>Strings and constants\<close>

text \<open>
  A JavaScript string is a sequence of UTF-16 code units, and \<open>.length\<close> counts
  code units. The Korean literals of the source are written out as their code units.
\<close>

type_synonym jsstring = "16 word list"

definition FALLBACK_SUBJECT :: jsstring where
  \<comment> \<open>the literal of the default folder in \<open>App.tsx\<close> (two Hangul syllables)\<close>
  "FALLBACK_SUBJECT = [0xAE30, 0xD0C0]"

definition INTERRUPTED_MESSAGE :: jsstring where
  \<comment> \<open>the message set at load for a record found in status processing (\<open>App.tsx\<close>, line 27)\<close>
  "INTERRUPTED_MESSAGE =
     [0xB179, 0xC74C, 0x20, 0xCC98, 0xB9AC, 0x20, 0xC911, 0x20, 0xD398, 0xC774, 0xC9C0,
      0xAC00, 0x20, 0xC0C8, 0xB85C, 0xACE0, 0xCE68, 0xB418, 0xC5B4, 0x20, 0xC911, 0xB2E8,
      0xB418, 0xC5C8, 0xC2B5, 0xB2C8, 0xB2E4, 0x2E]"

definition ANALYSIS_ERROR_MESSAGE :: jsstring where
  \<comment> \<open>the message set in the catch branch of the analysis call (\<open>App.tsx\<close>, line 85)\<close>
  "ANALYSIS_ERROR_MESSAGE =
     [0x41, 0x49, 0x20, 0xBD84, 0xC11D, 0x20, 0xC911, 0x20, 0xC624, 0xB958, 0xAC00, 0x20,
      0xBC1C, 0xC0DD, 0xD588, 0xC2B5, 0xB2C8, 0xB2E4, 0x2E]"

definition TITLE_PREFIX :: jsstring where
  \<comment> \<open>the text before the number in the default title (\<open>App.tsx\<close>, line 54)\<close>
  "TITLE_PREFIX = [0xAC15, 0xC758, 0x20, 0xB179, 0xC74C, 0x20]"

definition AUDIO_WEBM :: jsstring where
  \<comment> \<open>\<open>'audio/webm'\<close>\<close>
  "AUDIO_WEBM = [0x61, 0x75, 0x64, 0x69, 0x6F, 0x2F, 0x77, 0x65, 0x62, 0x6D]"

definition STORAGE_KEY :: jsstring where
  \<comment> \<open>\<open>'profnote-recordings'\<close>\<close>
  "STORAGE_KEY =
     [0x70, 0x72, 0x6F, 0x66, 0x6E, 0x6F, 0x74, 0x65, 0x2D, 0x72, 0x65, 0x63, 0x6F, 0x72,
      0x64, 0x69, 0x6E, 0x67, 0x73]"

text \<open>The decimal rendering of a number inside a template literal.\<close>

fun decimal :: "nat \<Rightarrow> jsstring" where
  "decimal n = (if n < 10 then [0x30 + of_nat n]
                else decimal (n div 10) @ [0x30 + of_nat (n mod 10)])"

declare decimal.simps [simp del]

text \<open>
  \<open>String.prototype.split\<close> with a regular expression that is one character class:
  the string is cut at every matching code unit, and the pieces between the cuts are
  returned, empty ones included. On the empty string the result is one empty piece.
\<close>

fun split_regex :: "(16 word \<Rightarrow> bool) \<Rightarrow> jsstring \<Rightarrow> jsstring list" where
  "split_regex sep [] = [[]]"
| "split_regex sep (c # cs) =
     (if sep c then [] # split_regex sep cs
      else (case split_regex sep cs of
              [] \<Rightarrow> [[c]]
            | w # ws \<Rightarrow> (c # w) # ws))"

definition sentence_end :: "16 word \<Rightarrow> bool" where
  \<comment> \<open>the character class \<open>[.!?]\<close>\<close>
  "sentence_end c \<longleftrightarrow> c = 0x2E \<or> c = 0x21 \<or> c = 0x3F"

text \<open>\<open>String.prototype.trim\<close>: white space and line terminators of ECMAScript.\<close>

definition js_space :: "16 word \<Rightarrow> bool" where
  "js_space c \<longleftrightarrow>
     c \<in> set [0x09, 0x0A, 0x0B, 0x0C, 0x0D, 0x20, 0xA0, 0x1680, 0x2000, 0x2001, 0x2002,
              0x2003, 0x2004, 0x2005, 0x2006, 0x2007, 0x2008, 0x2009, 0x200A, 0x2028,
              0x2029, 0x202F, 0x205F, 0x3000, 0xFEFF]"

definition trim :: "jsstring \<Rightarrow> jsstring" where
  "trim s = rev (dropWhile js_space (rev (dropWhile js_space s)))"

text \<open>
  \<open>a || b\<close> on strings: the empty string is the only falsy string, and \<open>null\<close> and
  \<open>undefined\<close> (here \<open>None\<close>) are falsy.
\<close>

definition or_else :: "jsstring option \<Rightarrow> jsstring \<Rightarrow> jsstring" where
  "or_else a b = (case a of None \<Rightarrow> b | Some s \<Rightarrow> if s = [] then b else s)"

section \<open>The data model (\<open>types.ts\<close>)\<close>

record NoteData =
  summary :: jsstring
  transcript :: jsstring
  keyTerms :: "jsstring list"
  examQuestions :: "jsstring list"

datatype status = Recorded | Processing | Completed | Error

record blob =
  bytes :: "8 word list"
  mime :: jsstring

text \<open>
  The value under \<open>audioBlob\<close>: a \<open>Blob\<close> while the record was made in this process;
  the empty object when the record came back from a snapshot, because a \<open>Blob\<close> has no
  enumerable own property and \<open>JSON.stringify\<close> writes it as \<open>{}\<close>.
\<close>

datatype audio = InMemory blob | EmptyObject

record recording =
  rec_id :: jsstring
  title :: jsstring
  subject :: jsstring
  date :: int \<comment> \<open>a \<open>Date\<close>, as its time value in milliseconds\<close>
  duration :: nat
  audioBlob :: "audio option"
  status :: status
  data :: "NoteData option"
  errorMessage :: "jsstring option"

datatype exn = SyntaxError | TypeError | AnalysisError jsstring

section \<open>The lifecycle coordinator (\<open>App.tsx\<close>)\<close>

definition extractTitle :: "jsstring \<Rightarrow> jsstring option" where
  "extractTitle s =
     (let sentences = split_regex sentence_end s in
      if length sentences > 0 \<and> length (sentences ! 0) < 30
      then Some (sentences ! 0) else None)"

text \<open>
  The record built at the start of \<open>handleRecordingCompleteCallback\<close>. \<open>n\<close> is
  \<open>recordings.length\<close> as the callback's closure sees it, \<open>now\<close> is \<open>new Date()\<close>.
\<close>

definition newRecording :: "jsstring \<Rightarrow> nat \<Rightarrow> int \<Rightarrow> blob \<Rightarrow> nat \<Rightarrow> recording" where
  "newRecording newId n now b d =
     \<lparr>rec_id = newId, title = TITLE_PREFIX @ decimal (n + 1), subject = FALLBACK_SUBJECT,
      date = now, duration = d, audioBlob = Some (InMemory b), status = Processing,
      data = None, errorMessage = None\<rparr>"

definition insertRecording :: "recording \<Rightarrow> recording list \<Rightarrow> recording list" where
  \<comment> \<open>\<open>prev => [newRecording, ...prev]\<close>\<close>
  "insertRecording r prev = r # prev"

definition analysisSucceeded :: "jsstring \<Rightarrow> NoteData \<Rightarrow> recording list \<Rightarrow> recording list" where
  "analysisSucceeded newId result prev =
     map (\<lambda>rec. if rec_id rec = newId
                then rec\<lparr>status := Completed, data := Some result,
                         title := or_else (extractTitle (summary result)) (title rec)\<rparr>
                else rec) prev"

definition analysisFailed :: "jsstring \<Rightarrow> recording list \<Rightarrow> recording list" where
  "analysisFailed newId prev =
     map (\<lambda>rec. if rec_id rec = newId
                then rec\<lparr>status := Error, errorMessage := Some ANALYSIS_ERROR_MESSAGE\<rparr>
                else rec) prev"

text \<open>
  The two branches after \<open>await analyzeLectureAudio(blob)\<close>: the call returns the notes
  (\<open>Inr\<close>) or throws (\<open>Inl\<close>); the caught error goes to the console only.
\<close>

definition analysisResolved :: "jsstring \<Rightarrow> exn + NoteData \<Rightarrow> recording list \<Rightarrow> recording list" where
  "analysisResolved newId outcome prev =
     (case outcome of
        Inr result \<Rightarrow> analysisSucceeded newId result prev
      | Inl error \<Rightarrow> analysisFailed newId prev)"

definition removeRecording :: "jsstring \<Rightarrow> recording list \<Rightarrow> recording list" where
  \<comment> \<open>\<open>prev => prev.filter(r => r.id !== id)\<close> in \<open>deleteRecording\<close>\<close>
  "removeRecording i prev = filter (\<lambda>r. rec_id r \<noteq> i) prev"

definition editRecording :: "jsstring \<Rightarrow> jsstring \<Rightarrow> jsstring \<Rightarrow> recording list \<Rightarrow> recording list" where
  \<comment> \<open>the update of \<open>saveEdit\<close>\<close>
  "editRecording editingId editTitle editSubject prev =
     map (\<lambda>rec. if rec_id rec = editingId
                then rec\<lparr>title := editTitle,
                         subject := or_else (Some (trim editSubject)) FALLBACK_SUBJECT\<rparr>
                else rec) prev"

section \<open>The snapshot in local storage (\<open>App.tsx\<close>)\<close>

text \<open>
  One element of the array that \<open>JSON.parse\<close> returns for a snapshot (\<open>item: any\<close>
  in the source). \<open>subject\<close> may be missing: snapshots written before the folder
  field existed have none. A date is stored as its ISO text and read back with
  \<open>new Date\<close>; both are the same instant, kept here as the time value.
\<close>

record item =
  item_id :: jsstring
  item_title :: jsstring
  item_subject :: "jsstring option"
  item_date :: int
  item_duration :: nat
  item_audioBlob :: "audio option"
  item_status :: status
  item_data :: "NoteData option"
  item_errorMessage :: "jsstring option"

text \<open>
  What \<open>JSON.stringify\<close> keeps of one record: every own property, a \<open>Blob\<close> as the
  empty object. The rendering of these values as text is the parameter
  \<open>JSON_stringify\<close> of the functions below.
\<close>

definition toItem :: "recording \<Rightarrow> item" where
  "toItem r =
     \<lparr>item_id = rec_id r, item_title = title r, item_subject = Some (subject r),
      item_date = date r, item_duration = duration r,
      item_audioBlob = map_option (\<lambda>a. EmptyObject) (audioBlob r),
      item_status = status r, item_data = data r, item_errorMessage = errorMessage r\<rparr>"

text \<open>
  What \<open>JSON.parse\<close> returns: an array of record objects, or another value on which
  the mapping throws a \<open>TypeError\<close> (not an array, or an array with a \<open>null\<close> in it).
\<close>

datatype parsed = Records "item list" | Other

definition rehydrate_item :: "item \<Rightarrow> recording" where
  \<comment> \<open>the arrow function given to \<open>parsedData.map\<close>\<close>
  "rehydrate_item it =
     \<lparr>rec_id = item_id it, title = item_title it,
      subject = or_else (item_subject it) FALLBACK_SUBJECT,
      date = item_date it, duration = item_duration it, audioBlob = item_audioBlob it,
      status = (if item_status it = Processing then Error else item_status it),
      data = item_data it,
      errorMessage = (if item_status it = Processing then Some INTERRUPTED_MESSAGE
                      else item_errorMessage it)\<rparr>"

definition try_parse :: "(jsstring \<Rightarrow> exn + parsed) \<Rightarrow> jsstring \<Rightarrow> exn + recording list" where
  \<comment> \<open>the body of the \<open>try\<close> block\<close>
  "try_parse JSON_parse savedData =
     (case JSON_parse savedData of
        Inl e \<Rightarrow> Inl e
      | Inr Other \<Rightarrow> Inl TypeError
      | Inr (Records items) \<Rightarrow> Inr (map rehydrate_item items))"

definition initialRecordings ::
  "(jsstring \<Rightarrow> exn + parsed) \<Rightarrow> bool \<Rightarrow> (jsstring \<rightharpoonup> jsstring) \<Rightarrow> recording list" where
  \<comment> \<open>the initializer of \<open>useState<Recording[]>\<close>; \<open>has_window\<close> is \<open>typeof window !== 'undefined'\<close>\<close>
  "initialRecordings JSON_parse has_window store =
     (if \<not> has_window then []
      else case store STORAGE_KEY of
             None \<Rightarrow> []
           | Some savedData \<Rightarrow>
               if savedData = [] then []
               else (case try_parse JSON_parse savedData of
                       Inl error \<Rightarrow> []
                     | Inr rs \<Rightarrow> rs))"

section \<open>The application state and its events\<close>

text \<open>
  The state of \<open>App\<close> that the lifecycle touches: the list of records, the selection,
  local storage, and the calls made to \<open>analyzeLectureAudio\<close> so far.
\<close>

record app =
  recordings :: "recording list"
  selectedId :: "jsstring option"
  localStorage :: "jsstring \<rightharpoonup> jsstring"
  analyzeCalls :: "blob list"

text \<open>
  \<open>setRecordings\<close> with an updater, followed by the effect that depends on
  \<open>recordings\<close>: \<open>localStorage.setItem('profnote-recordings', JSON.stringify(recordings))\<close>.
\<close>

definition setRecordings ::
  "(item list \<Rightarrow> jsstring) \<Rightarrow> (recording list \<Rightarrow> recording list) \<Rightarrow> app \<Rightarrow> app" where
  "setRecordings JSON_stringify f s =
     (let rs = f (recordings s)
      in s\<lparr>recordings := rs,
           localStorage := (localStorage s)(STORAGE_KEY \<mapsto> JSON_stringify (map toItem rs))\<rparr>)"

datatype action =
    RecordingComplete jsstring nat int blob nat
      \<comment> \<open>\<open>generateId()\<close>, the closure's \<open>recordings.length\<close>, \<open>new Date()\<close>, the blob, the duration\<close>
  | AnalysisResolved jsstring "exn + NoteData"
  | DeleteRecording bool jsstring
      \<comment> \<open>the answer of \<open>window.confirm\<close>, the id\<close>
  | SaveEdit "jsstring option" jsstring jsstring
      \<comment> \<open>\<open>editingId\<close>, \<open>editTitle\<close>, \<open>editSubject\<close>\<close>

fun updater :: "action \<Rightarrow> (recording list \<Rightarrow> recording list) option" where
  "updater (RecordingComplete newId n now b d) =
     Some (insertRecording (newRecording newId n now b d))"
| "updater (AnalysisResolved newId outcome) = Some (analysisResolved newId outcome)"
| "updater (DeleteRecording confirmed i) =
     (if confirmed then Some (removeRecording i) else None)"
| "updater (SaveEdit editingId editTitle editSubject) =
     (case editingId of
        None \<Rightarrow> None
      | Some i \<Rightarrow> if i = [] then None else Some (editRecording i editTitle editSubject))"

fun step :: "(item list \<Rightarrow> jsstring) \<Rightarrow> action \<Rightarrow> app \<Rightarrow> app" where
  "step JSON_stringify (RecordingComplete newId n now b d) s =
     (setRecordings JSON_stringify (insertRecording (newRecording newId n now b d)) s)
       \<lparr>analyzeCalls := analyzeCalls s @ [b]\<rparr>"
| "step JSON_stringify (AnalysisResolved newId outcome) s =
     setRecordings JSON_stringify (analysisResolved newId outcome) s"
| "step JSON_stringify (DeleteRecording confirmed i) s =
     (if confirmed
      then (setRecordings JSON_stringify (removeRecording i) s)
             \<lparr>selectedId := (if selectedId s = Some i then None else selectedId s)\<rparr>
      else s)"
| "step JSON_stringify (SaveEdit editingId editTitle editSubject) s =
     (case editingId of
        None \<Rightarrow> s
      | Some i \<Rightarrow> if i = [] then s
                  else setRecordings JSON_stringify (editRecording i editTitle editSubject) s)"

subsection \<open>The detail view and its retry button (\<open>NoteDetail.tsx\<close>)\<close>

record NoteDetailProps =
  recording :: recording
  onBack :: "app \<Rightarrow> app"
  onRetry :: "(app \<Rightarrow> app) option"

definition noteDetailProps :: "recording \<Rightarrow> NoteDetailProps" where
  \<comment> \<open>the props \<open>App\<close> passes: \<open>recording\<close> and \<open>onBack\<close>; no \<open>onRetry\<close>\<close>
  "noteDetailProps selectedRecording =
     \<lparr>recording = selectedRecording, onBack = (\<lambda>s. s\<lparr>selectedId := None\<rparr>), onRetry = None\<rparr>"

definition retryClicked :: "NoteDetailProps \<Rightarrow> app \<Rightarrow> app" where
  \<comment> \<open>\<open>onClick={onRetry}\<close>: a button without a handler does nothing\<close>
  "retryClicked props s = (case onRetry props of None \<Rightarrow> s | Some handler \<Rightarrow> handler s)"

text \<open>
  \<open>loadAudio\<close> of the detail view: when \<open>recording.audioBlob\<close> is truthy, and every
  object is, an object URL is made from it; only otherwise is the audio asked from the
  blob store under the id of the record.
\<close>

datatype audio_source = CreateObjectURL audio | GetAudio jsstring

definition loadAudio :: "recording \<Rightarrow> audio_source" where
  "loadAudio r = (case audioBlob r of Some a \<Rightarrow> CreateObjectURL a | None \<Rightarrow> GetAudio (rec_id r))"

section \<open>The capture session (the recorder hook)\<close>

definition PERMISSION_MESSAGE :: jsstring where
  "PERMISSION_MESSAGE =
     [0xB9C8, 0xC774, 0xD06C, 0x20, 0xAD8C, 0xD55C, 0xC774, 0x20, 0xD544, 0xC694, 0xD569,
      0xB2C8, 0xB2E4, 0x2E, 0x20, 0xBE0C, 0xB77C, 0xC6B0, 0xC800, 0x20, 0xC124, 0xC815,
      0xC5D0, 0xC11C, 0x20, 0xAD8C, 0xD55C, 0xC744, 0x20, 0xD5C8, 0xC6A9, 0xD574, 0xC8FC,
      0xC138, 0xC694, 0x2E]"

datatype recorder_state = Inactive | Capturing

text \<open>
  The \<open>MediaRecorder\<close> made by \<open>startRecording\<close>, with its \<open>onstop\<close> handler. The
  handler is a closure created inside \<open>startRecording\<close>; the \<open>duration\<close> it reads is
  the constant of the render in which that \<open>startRecording\<close> was created, so the
  handler is kept as the value it will read.
\<close>

record MediaRecorder =
  mr_state :: recorder_state
  onstop_duration :: nat

record recorder =
  isRecording :: bool
  hook_duration :: nat \<comment> \<open>the state \<open>duration\<close> of the hook\<close>
  permissionError :: "jsstring option"
  mediaRecorderRef :: "MediaRecorder option"
  streamRef :: bool \<comment> \<open>a stream is held\<close>
  audioContextRef :: bool \<comment> \<open>an audio context is held\<close>
  chunksRef :: "blob list"
  timerRef :: bool \<comment> \<open>an interval is set\<close>

definition initial_recorder :: recorder where
  "initial_recorder =
     \<lparr>isRecording = False, hook_duration = 0, permissionError = None,
      mediaRecorderRef = None, streamRef = False, audioContextRef = False,
      chunksRef = [], timerRef = False\<rparr>"

definition startRecording :: "bool \<Rightarrow> recorder \<Rightarrow> recorder" where
  \<comment> \<open>\<open>granted\<close>: \<open>getUserMedia\<close> resolves and the \<open>try\<close> block runs through; otherwise
     \<open>getUserMedia\<close> rejects and the \<open>catch\<close> branch runs with nothing assigned yet.
     The function called is the one of the latest render, whose \<open>duration\<close> is the
     state at the call.\<close>
  "startRecording granted h =
     (if granted
      then h\<lparr>streamRef := True, audioContextRef := True,
             mediaRecorderRef := Some \<lparr>mr_state = Capturing, onstop_duration = hook_duration h\<rparr>,
             chunksRef := [], isRecording := True, hook_duration := 0,
             permissionError := None, timerRef := True\<rparr>
      else h\<lparr>permissionError := Some PERMISSION_MESSAGE\<rparr>)"

text \<open>
  The \<open>try\<close> block can also throw after \<open>getUserMedia\<close> has resolved: at the making of
  the audio context, at \<open>new MediaRecorder\<close>, or at \<open>mediaRecorder.start()\<close>. What was
  assigned before stays assigned, since the \<open>catch\<close> branch only sets the message.
\<close>

datatype start_failure = AtAudioContext | AtMediaRecorder | AtStart

definition startRecording_throws :: "start_failure \<Rightarrow> recorder \<Rightarrow> recorder" where
  "startRecording_throws p h =
     (case p of
        AtAudioContext \<Rightarrow>
          h\<lparr>streamRef := True, permissionError := Some PERMISSION_MESSAGE\<rparr>
      | AtMediaRecorder \<Rightarrow>
          h\<lparr>streamRef := True, audioContextRef := True,
            permissionError := Some PERMISSION_MESSAGE\<rparr>
      | AtStart \<Rightarrow>
          h\<lparr>streamRef := True, audioContextRef := True,
            mediaRecorderRef := Some \<lparr>mr_state = Inactive, onstop_duration = hook_duration h\<rparr>,
            chunksRef := [], permissionError := Some PERMISSION_MESSAGE\<rparr>)"

definition tick :: "recorder \<Rightarrow> recorder" where
  \<comment> \<open>the interval callback \<open>setDuration(prev => prev + 1)\<close>, once per second while set\<close>
  "tick h = (if timerRef h then h\<lparr>hook_duration := hook_duration h + 1\<rparr> else h)"

definition ondataavailable :: "blob \<Rightarrow> recorder \<Rightarrow> recorder" where
  "ondataavailable e h =
     (if length (bytes e) > 0 then h\<lparr>chunksRef := chunksRef h @ [e]\<rparr> else h)"

definition cleanupAudio :: "recorder \<Rightarrow> recorder" where
  "cleanupAudio h = h\<lparr>streamRef := False, audioContextRef := False\<rparr>"

definition onstop :: "MediaRecorder \<Rightarrow> recorder \<Rightarrow> recorder \<times> (blob \<times> nat)" where
  \<comment> \<open>returns the arguments of the call \<open>onRecordingComplete(blob, finalDuration)\<close>\<close>
  "onstop m h =
     (let b = \<lparr>bytes = concat (map bytes (chunksRef h)), mime = AUDIO_WEBM\<rparr>;
          finalDuration = onstop_duration m
      in (cleanupAudio h, (b, finalDuration)))"

definition stopRecording :: "blob \<Rightarrow> recorder \<Rightarrow> recorder \<times> (blob \<times> nat) option" where
  \<comment> \<open>\<open>tail\<close> is the data the recorder delivers on \<open>stop()\<close>, before the stop event\<close>
  "stopRecording tail h =
     (case mediaRecorderRef h of
        None \<Rightarrow> (h, None)
      | Some m \<Rightarrow>
          if mr_state m = Inactive then (h, None)
          else (let h1 = h\<lparr>mediaRecorderRef := Some (m\<lparr>mr_state := Inactive\<rparr>),
                           isRecording := False, timerRef := False\<rparr>;
                    h2 = ondataavailable tail h1;
                    (h3, call) = onstop m h2
                in (h3, Some call)))"

datatype recorder_event = Start bool | StartThrows start_failure | Tick | Data blob | Stop blob

fun recorder_step ::
  "recorder \<times> (blob \<times> nat) list \<Rightarrow> recorder_event \<Rightarrow> recorder \<times> (blob \<times> nat) list" where
  "recorder_step (h, calls) (Start granted) = (startRecording granted h, calls)"
| "recorder_step (h, calls) (StartThrows p) = (startRecording_throws p h, calls)"
| "recorder_step (h, calls) Tick = (tick h, calls)"
| "recorder_step (h, calls) (Data e) = (ondataavailable e h, calls)"
| "recorder_step (h, calls) (Stop tail) =
     (case stopRecording tail h of
        (h', None) \<Rightarrow> (h', calls)
      | (h', Some call) \<Rightarrow> (h', calls @ [call]))"

definition run_recorder :: "recorder_event list \<Rightarrow> recorder \<Rightarrow> recorder \<times> (blob \<times> nat) list" where
  \<comment> \<open>the state after the events, and the calls made to \<open>onRecordingComplete\<close>\<close>
  "run_recorder evs h = foldl recorder_step (h, []) evs"

section \<open>Runs and example values\<close>

definition apply_action :: "action \<Rightarrow> recording list \<Rightarrow> recording list" where
  \<comment> \<open>the list of records after one event\<close>
  "apply_action a rs = (case updater a of None \<Rightarrow> rs | Some f \<Rightarrow> f rs)"

definition apply_actions :: "action list \<Rightarrow> recording list \<Rightarrow> recording list" where
  "apply_actions as rs = foldl (\<lambda>rs a. apply_action a rs) rs as"

fun is_capture :: "action \<Rightarrow> bool" where
  "is_capture (RecordingComplete newId n now b d) = True"
| "is_capture a = False"

fun captured :: "action \<Rightarrow> recording list" where
  \<comment> \<open>the record a capture event inserts\<close>
  "captured (RecordingComplete newId n now b d) = [newRecording newId n now b d]"
| "captured a = []"

fun resolves :: "jsstring \<Rightarrow> action \<Rightarrow> bool" where
  \<comment> \<open>the event is the end of the analysis started for this id\<close>
  "resolves i (AnalysisResolved newId outcome) = (newId = i)"
| "resolves i a = False"

definition example_blob :: blob where
  "example_blob = \<lparr>bytes = [0x1A, 0x45, 0xDF, 0xA3], mime = AUDIO_WEBM\<rparr>"

definition example_recording :: recording where
  \<comment> \<open>the first record of an empty list: id \<open>a\<close>, 125 seconds\<close>
  "example_recording = newRecording [0x61] 0 0 example_blob 125"

definition scenario_result :: NoteData where
  \<comment> \<open>a summary of two sentences, the first of 20 code units\<close>
  "scenario_result =
     \<lparr>summary = [0xC774, 0x20, 0xAC15, 0xC758, 0xB294, 0x20, 0xC120, 0xD615, 0xB300, 0xC218,
                 0xC758, 0x20, 0xAE30, 0xCD08, 0xB97C, 0x20, 0xB2E4, 0xB8F9, 0xB2C8, 0xB2E4,
                 0x2E, 0x20, 0x2E, 0x2E, 0x2E],
      transcript = [], keyTerms = [], examQuestions = []\<rparr>"

definition dots_result :: NoteData where
  \<comment> \<open>the summary \<open>...\<close>\<close>
  "dots_result = \<lparr>summary = [0x2E, 0x2E, 0x2E], transcript = [], keyTerms = [], examQuestions = []\<rparr>"

definition legacy_item :: item where
  \<comment> \<open>a completed record of a snapshot written before the folder field existed\<close>
  "legacy_item =
     \<lparr>item_id = [0x62], item_title = [0x6F, 0x6C, 0x64], item_subject = None, item_date = 0,
      item_duration = 60, item_audioBlob = None, item_status = Completed,
      item_data = Some dots_result, item_errorMessage = None\<rparr>"

definition interrupted_item :: item where
  \<comment> \<open>a record that was in analysis when the snapshot was written\<close>
  "interrupted_item = toItem example_recording"

definition parse_as :: "parsed \<Rightarrow> jsstring \<Rightarrow> exn + parsed" where
  \<comment> \<open>a parser for the examples: every text reads as the given value\<close>
  "parse_as p text = Inr p"

definition parse_fails :: "jsstring \<Rightarrow> exn + parsed" where
  \<comment> \<open>a parser for the examples: every text is malformed\<close>
  "parse_fails text = Inl SyntaxError"

definition example_app :: app where
  "example_app =
     \<lparr>recordings = [example_recording], selectedId = None, localStorage = Map.empty,
      analyzeCalls = [example_blob]\<rparr>"

text \<open>No event but the end of its own analysis gives notes to a record with this id.\<close>

definition no_notes :: "jsstring \<Rightarrow> recording list \<Rightarrow> bool" where
  "no_notes i rs \<longleftrightarrow> list_all (\<lambda>r. rec_id r \<noteq> i \<or> data r = None) rs"

definition legacy_store :: "jsstring \<rightharpoonup> jsstring" where
  \<comment> \<open>local storage with some text under the key; the example parsers give its reading\<close>
  "legacy_store = Map.empty(STORAGE_KEY \<mapsto> [0x5B, 0x2E, 0x2E, 0x2E, 0x5D])"

definition failed_recording :: recording where
  \<comment> \<open>the example record after its analysis failed\<close>
  "failed_recording =
     example_recording\<lparr>status := Error, errorMessage := Some ANALYSIS_ERROR_MESSAGE\<rparr>"

definition failed_app :: app where
  "failed_app =
     \<lparr>recordings = [failed_recording], selectedId = Some [0x61], localStorage = Map.empty,
      analyzeCalls = [example_blob]\<rparr>"

definition fresh_app :: app where
  \<comment> \<open>the application before the first recording\<close>
  "fresh_app =
     \<lparr>recordings = [], selectedId = None, localStorage = Map.empty, analyzeCalls = []\<rparr>"

section \<open>Helper facts\<close>

subsection \<open>The first sentence of a summary\<close>

lemma split_regex_nonempty: "split_regex sep s \<noteq> []"
  by (induction s) (auto split: list.splits)

lemma split_regex_first: "hd (split_regex sep s) = takeWhile (\<lambda>c. \<not> sep c) s"
  by (induction s) (auto split: list.splits simp: split_regex_nonempty)

lemma extractTitle_eq:
  "extractTitle s =
     (if length (takeWhile (\<lambda>c. \<not> sentence_end c) s) < 30
      then Some (takeWhile (\<lambda>c. \<not> sentence_end c) s) else None)"
proof -
  have ne: "split_regex sentence_end s \<noteq> []"
    by (rule split_regex_nonempty)
  then have "split_regex sentence_end s ! 0 = hd (split_regex sentence_end s)"
    by (simp add: hd_conv_nth)
  with ne show ?thesis
    by (simp add: extractTitle_def Let_def split_regex_first)
qed

lemma takeWhile_empty_iff:
  "takeWhile P s = [] \<longleftrightarrow> (case s of [] \<Rightarrow> True | c # cs \<Rightarrow> \<not> P c)"
  by (cases s) simp_all

lemma analysisSucceeded_nth:
  "k < length prev \<Longrightarrow>
   analysisSucceeded newId result prev ! k =
     (if rec_id (prev ! k) = newId
      then (prev ! k)\<lparr>status := Completed, data := Some result,
             title := or_else (extractTitle (summary result)) (title (prev ! k))\<rparr>
      else prev ! k)"
  by (simp add: analysisSucceeded_def)

lemma analysisFailed_nth:
  "k < length prev \<Longrightarrow>
   analysisFailed newId prev ! k =
     (if rec_id (prev ! k) = newId
      then (prev ! k)\<lparr>status := Error, errorMessage := Some ANALYSIS_ERROR_MESSAGE\<rparr>
      else prev ! k)"
  by (simp add: analysisFailed_def)

lemma auto_title:
  "or_else (extractTitle s) t =
     (let first = takeWhile (\<lambda>c. \<not> sentence_end c) s
      in if first \<noteq> [] \<and> length first < 30 then first else t)"
  by (simp add: extractTitle_eq or_else_def Let_def)

subsection \<open>The timer of a capture session\<close>

lemma ticks_run:
  "foldl recorder_step (h, calls) (replicate n Tick) = ((tick ^^ n) h, calls)"
  by (induction n arbitrary: h) (simp_all add: funpow_swap1)

lemma ticks_count:
  "timerRef h \<Longrightarrow> (tick ^^ n) h = h\<lparr>hook_duration := hook_duration h + n\<rparr>"
  by (induction n) (simp_all add: tick_def)

text \<open>One session: start, \<open>n\<close> seconds, stop.\<close>

lemma session_run:
  "run_recorder (Start True # replicate n Tick @ [Stop tail]) h =
     (case stopRecording tail ((startRecording True h)\<lparr>hook_duration := n\<rparr>) of
        (h', None) \<Rightarrow> (h', [])
      | (h', Some call) \<Rightarrow> (h', [call]))"
proof -
  have t: "timerRef (startRecording True h)"
    by (simp add: startRecording_def)
  have "(tick ^^ n) (startRecording True h) = (startRecording True h)\<lparr>hook_duration := n\<rparr>"
    using ticks_count [OF t, of n] by (simp add: startRecording_def)
  then show ?thesis
    by (simp add: run_recorder_def ticks_run)
qed

lemma session_calls:
  "map snd (snd (run_recorder (Start True # replicate n Tick @ [Stop tail]) h)) =
     [hook_duration h]"
  by (simp add: session_run stopRecording_def startRecording_def onstop_def Let_def
      ondataavailable_def cleanupAudio_def)

lemma session_count:
  "hook_duration (fst (run_recorder (Start True # replicate n Tick @ [Stop tail]) h)) = n"
  by (simp add: session_run stopRecording_def startRecording_def onstop_def Let_def
      ondataavailable_def cleanupAudio_def)

section \<open>C1: the duration given to the completion callback\<close>

text \<open>
  C1 says that the duration passed to \<open>onRecordingComplete\<close>, and stored in the new
  record, is the count the one-second timer reached during the session, 125 for a
  session of 125 seconds. In the code the \<open>onstop\<close> handler reads the \<open>duration\<close> of
  the render in which \<open>startRecording\<close> was created, not the current count: a first
  session of 125 seconds ends with the timer at 125 and reports 0, and the record made
  from that call has duration 0.
\<close>

theorem C1_duration_is_stale:
  "hook_duration (fst (run_recorder (Start True # replicate 125 Tick @ [Stop tail])
      initial_recorder)) = 125
   \<and> map snd (snd (run_recorder (Start True # replicate 125 Tick @ [Stop tail])
      initial_recorder)) = [0]
   \<and> map (\<lambda>(b, d). duration (newRecording newId k now b d))
        (snd (run_recorder (Start True # replicate 125 Tick @ [Stop tail])
      initial_recorder)) = [0]"
proof -
  let ?run = "run_recorder (Start True # replicate 125 Tick @ [Stop tail]) initial_recorder"
  have count: "hook_duration (fst ?run) = 125"
    by (rule session_count)
  have calls: "map snd (snd ?run) = [0]"
    by (simp only: session_calls) (simp add: initial_recorder_def)
  have "map (\<lambda>(b, d). duration (newRecording newId k now b d)) (snd ?run) = map snd (snd ?run)"
    by (simp add: newRecording_def case_prod_unfold)
  with count calls show ?thesis
    by simp
qed

text \<open>
  A later session reports the count of the session before it, whatever its own length.
\<close>

lemma next_session_reports_previous_count:
  "map snd (snd (run_recorder (Start True # replicate m Tick @ [Stop tail'])
      (fst (run_recorder (Start True # replicate n Tick @ [Stop tail]) h)))) = [n]"
  by (simp only: session_calls session_count)

section \<open>C3: the update after a successful analysis\<close>

text \<open>
  C3 as stated says that a first sentence of fewer than 30 code units always replaces
  the title. It fails on an empty first sentence: for the summary \<open>...\<close> the first
  sentence is empty, so shorter than 30, and the title stays what it was.
\<close>

theorem C3_counterexample:
  "length (hd (split_regex sentence_end (summary dots_result))) < 30
   \<and> title (analysisSucceeded [0x61] dots_result [example_recording] ! 0)
       \<noteq> hd (split_regex sentence_end (summary dots_result))
   \<and> title (analysisSucceeded [0x61] dots_result [example_recording] ! 0)
       = title example_recording"
  by (simp add: dots_result_def sentence_end_def analysisSucceeded_def example_recording_def
      newRecording_def extractTitle_def or_else_def TITLE_PREFIX_def)

text \<open>
  C3, amended: after a successful analysis the record with the id has status completed
  and carries the result; its title becomes the text before the first \<open>.\<close>, \<open>!\<close> or
  \<open>?\<close> of the summary when that text is not empty and shorter than 30 code units, and
  stays unchanged otherwise.
\<close>

theorem C3_success_update:
  assumes "k < length prev" and "rec_id (prev ! k) = newId"
  shows "analysisSucceeded newId result prev ! k =
     (prev ! k)\<lparr>status := Completed, data := Some result,
        title := (let first = takeWhile (\<lambda>c. \<not> sentence_end c) (summary result)
                  in if first \<noteq> [] \<and> length first < 30 then first else title (prev ! k))\<rparr>"
  using assms by (simp add: analysisSucceeded_nth auto_title)

theorem C3_success_update_witness:
  "analysisSucceeded [0x61] scenario_result [example_recording] ! 0 =
     example_recording\<lparr>status := Completed, data := Some scenario_result,
        title := [0xC774, 0x20, 0xAC15, 0xC758, 0xB294, 0x20, 0xC120, 0xD615, 0xB300, 0xC218,
                 0xC758, 0x20, 0xAE30, 0xCD08, 0xB97C, 0x20, 0xB2E4, 0xB8F9, 0xB2C8, 0xB2E4]\<rparr>"
  using C3_success_update [of 0 "[example_recording]" "[0x61]" scenario_result]
  by (simp add: example_recording_def newRecording_def scenario_result_def sentence_end_def)

section \<open>C9: an empty first sentence never becomes the title\<close>

text \<open>
  C9: the first sentence of the summary is empty exactly when the summary is empty or
  starts with \<open>.\<close>, \<open>!\<close> or \<open>?\<close>; then \<open>extractTitle\<close> returns the empty string, which
  is under the threshold, and the title is left unchanged; and a title that is empty
  after a successful analysis was empty before it.
\<close>

theorem C9_empty_first_sentence:
  assumes "k < length prev" and "rec_id (prev ! k) = newId"
  shows "(hd (split_regex sentence_end (summary result)) = []
            \<longleftrightarrow> (case summary result of [] \<Rightarrow> True | c # cs \<Rightarrow> sentence_end c))
   \<and> (hd (split_regex sentence_end (summary result)) = []
        \<longrightarrow> extractTitle (summary result) = Some []
          \<and> title (analysisSucceeded newId result prev ! k) = title (prev ! k))
   \<and> (title (analysisSucceeded newId result prev ! k) = [] \<longrightarrow> title (prev ! k) = [])"
proof -
  let ?first = "takeWhile (\<lambda>c. \<not> sentence_end c) (summary result)"
  have first: "hd (split_regex sentence_end (summary result)) = ?first"
    by (rule split_regex_first)
  have shape: "?first = [] \<longleftrightarrow> (case summary result of [] \<Rightarrow> True | c # cs \<Rightarrow> sentence_end c)"
    by (simp add: takeWhile_empty_iff split: list.splits)
  have ex: "?first = [] \<longrightarrow> extractTitle (summary result) = Some []"
    by (simp add: extractTitle_eq)
  have new: "title (analysisSucceeded newId result prev ! k)
      = (if ?first \<noteq> [] \<and> length ?first < 30 then ?first else title (prev ! k))"
    using assms by (simp add: analysisSucceeded_nth auto_title Let_def)
  have keep: "?first = [] \<longrightarrow> title (analysisSucceeded newId result prev ! k) = title (prev ! k)"
    by (simp add: new)
  have nonempty: "title (analysisSucceeded newId result prev ! k) = [] \<longrightarrow> title (prev ! k) = []"
    by (simp add: new split: if_splits)
  from shape ex keep nonempty show ?thesis
    unfolding first by blast
qed

theorem C9_empty_first_sentence_witness:
  "hd (split_regex sentence_end (summary dots_result)) = []
   \<and> title (analysisSucceeded [0x61] dots_result [example_recording] ! 0) = title example_recording
   \<and> title example_recording \<noteq> []"
  using C9_empty_first_sentence [of 0 "[example_recording]" "[0x61]" dots_result]
  by (simp add: example_recording_def newRecording_def dots_result_def sentence_end_def TITLE_PREFIX_def)

section \<open>Facts about the update by id\<close>

lemma analysisResolved_length: "length (analysisResolved i outcome prev) = length prev"
  by (cases outcome) (simp_all add: analysisResolved_def analysisSucceeded_def analysisFailed_def)

lemma analysisResolved_other:
  "k < length prev \<Longrightarrow> rec_id (prev ! k) \<noteq> i \<Longrightarrow> analysisResolved i outcome prev ! k = prev ! k"
  by (cases outcome) (simp_all add: analysisResolved_def analysisSucceeded_nth analysisFailed_nth)

lemma analysisResolved_absent:
  "i \<notin> rec_id ` set prev \<Longrightarrow> analysisResolved i outcome prev = prev"
  by (cases outcome)
    (auto simp: analysisResolved_def analysisSucceeded_def analysisFailed_def intro!: map_idI)

lemma no_notes_step:
  "no_notes i rs \<Longrightarrow> \<not> resolves i a \<Longrightarrow> no_notes i (apply_action a rs)"
proof (cases a)
  case (RecordingComplete newId n now b d)
  assume "no_notes i rs"
  with RecordingComplete show ?thesis
    by (simp add: no_notes_def apply_action_def insertRecording_def newRecording_def)
next
  case (AnalysisResolved newId outcome)
  assume "no_notes i rs" and "\<not> resolves i a"
  with AnalysisResolved show ?thesis
    by (cases outcome)
      (auto simp: no_notes_def apply_action_def analysisResolved_def analysisSucceeded_def
        analysisFailed_def list_all_iff)
next
  case (DeleteRecording confirmed j)
  assume "no_notes i rs"
  with DeleteRecording show ?thesis
    by (auto simp: no_notes_def apply_action_def removeRecording_def list_all_iff)
next
  case (SaveEdit editingId editTitle editSubject)
  assume "no_notes i rs"
  with SaveEdit show ?thesis
    by (auto simp: no_notes_def apply_action_def editRecording_def list_all_iff
        split: option.splits)
qed

lemma no_notes_run:
  "no_notes i rs \<Longrightarrow> \<forall>a\<in>set acts. \<not> resolves i a \<Longrightarrow> no_notes i (apply_actions acts rs)"
proof (induction acts arbitrary: rs)
  case Nil
  then show ?case by (simp add: apply_actions_def)
next
  case (Cons a acts)
  from Cons.prems have "no_notes i (apply_action a rs)"
    by (simp add: no_notes_step)
  with Cons.prems have "no_notes i (apply_actions acts (apply_action a rs))"
    by (intro Cons.IH) simp_all
  then show ?case by (simp add: apply_actions_def)
qed

text \<open>Runs of events.\<close>

lemma apply_actions_Cons: "apply_actions (a # acts) rs = apply_actions acts (apply_action a rs)"
  by (simp add: apply_actions_def)

lemma apply_actions_snoc: "apply_actions (acts @ [a]) rs = apply_action a (apply_actions acts rs)"
  by (simp add: apply_actions_def)

lemma failed_analysis_of_fresh_record:
  assumes fresh: "i \<notin> rec_id ` set rs0"
    and others: "\<forall>a\<in>set acts. \<not> resolves i a"
    and r: "r \<in> set (apply_actions (RecordingComplete i n now b d # acts
                @ [AnalysisResolved i (Inl error)]) rs0)"
    and i: "rec_id r = i"
  shows "status r = Error \<and> errorMessage r = Some ANALYSIS_ERROR_MESSAGE \<and> data r = None"
proof -
  let ?rs = "apply_actions acts (apply_action (RecordingComplete i n now b d) rs0)"
  from fresh have "no_notes i rs0"
    by (auto simp: no_notes_def list_all_iff)
  then have "no_notes i (apply_action (RecordingComplete i n now b d) rs0)"
    by (simp add: no_notes_step)
  from this others have nn: "no_notes i ?rs"
    by (rule no_notes_run)
  from r have "r \<in> set (analysisFailed i ?rs)"
    by (simp add: apply_actions_Cons apply_actions_snoc [of "_ # _", simplified]
        apply_actions_snoc apply_action_def analysisResolved_def)
  then obtain r0 where r0: "r0 \<in> set ?rs"
    and r_eq: "r = (if rec_id r0 = i
                    then r0\<lparr>status := Error, errorMessage := Some ANALYSIS_ERROR_MESSAGE\<rparr>
                    else r0)"
    by (auto simp: analysisFailed_def)
  from r_eq i have id0: "rec_id r0 = i"
    by (auto split: if_splits)
  with nn r0 have "data r0 = None"
    by (auto simp: no_notes_def list_all_iff)
  with r_eq id0 show ?thesis by simp
qed

section \<open>C4: the update after a failed analysis\<close>

text \<open>
  C4: when the analysis fails, the record with the id gets status error and the fixed
  message, and nothing else of it changes; the caught error has no influence on the
  list. For a record made under a fresh id whose analysis fails, whatever happens to
  the list in between, the notes are absent afterwards.
\<close>

theorem C4_failure_update:
  "(\<forall>k<length prev. rec_id (prev ! k) = newId \<longrightarrow>
      analysisResolved newId (Inl error) prev ! k =
        (prev ! k)\<lparr>status := Error, errorMessage := Some ANALYSIS_ERROR_MESSAGE\<rparr>)
   \<and> analysisResolved newId (Inl error) prev = analysisResolved newId (Inl error') prev
   \<and> (newId \<notin> rec_id ` set rs0 \<and> (\<forall>a\<in>set acts. \<not> resolves newId a) \<longrightarrow>
        (\<forall>r\<in>set (apply_actions (RecordingComplete newId n now b d # acts
                      @ [AnalysisResolved newId (Inl error)]) rs0).
           rec_id r = newId \<longrightarrow>
             status r = Error \<and> errorMessage r = Some ANALYSIS_ERROR_MESSAGE \<and> data r = None))"
proof (intro conjI allI impI ballI)
  fix k assume "k < length prev" and "rec_id (prev ! k) = newId"
  then show "analysisResolved newId (Inl error) prev ! k =
        (prev ! k)\<lparr>status := Error, errorMessage := Some ANALYSIS_ERROR_MESSAGE\<rparr>"
    by (simp add: analysisResolved_def analysisFailed_nth)
next
  show "analysisResolved newId (Inl error) prev = analysisResolved newId (Inl error') prev"
    by (simp add: analysisResolved_def)
next
  fix r
  assume "newId \<notin> rec_id ` set rs0 \<and> (\<forall>a\<in>set acts. \<not> resolves newId a)"
    and "r \<in> set (apply_actions (RecordingComplete newId n now b d # acts
                      @ [AnalysisResolved newId (Inl error)]) rs0)"
    and "rec_id r = newId"
  then have *: "status r = Error \<and> errorMessage r = Some ANALYSIS_ERROR_MESSAGE \<and> data r = None"
    using failed_analysis_of_fresh_record [of newId rs0 acts r n now b d error] by blast
  from * show "status r = Error" by simp
  from * show "errorMessage r = Some ANALYSIS_ERROR_MESSAGE" by simp
  from * show "data r = None" by simp
qed

theorem C4_failure_update_witness:
  "analysisResolved [0x61] (Inl (AnalysisError [])) [example_recording] ! 0 =
     example_recording\<lparr>status := Error, errorMessage := Some ANALYSIS_ERROR_MESSAGE\<rparr>
   \<and> apply_actions [RecordingComplete [0x61] 0 0 example_blob 125,
        AnalysisResolved [0x61] (Inl (AnalysisError []))] [] =
       [example_recording\<lparr>status := Error, errorMessage := Some ANALYSIS_ERROR_MESSAGE\<rparr>]
   \<and> data (example_recording\<lparr>status := Error, errorMessage := Some ANALYSIS_ERROR_MESSAGE\<rparr>) = None"
  using C4_failure_update [of "[example_recording]" "[0x61]" "AnalysisError []" "AnalysisError []"
      "[]" "[]" 0 0 example_blob 125]
  by (simp add: example_recording_def newRecording_def apply_actions_def apply_action_def
      insertRecording_def analysisResolved_def analysisFailed_def)

section \<open>C5: an update by id touches only the record with that id\<close>

text \<open>
  C5: the update at the end of an analysis, successful or not, keeps the length of the
  list, leaves every record with another id as it was, and changes nothing when no
  record has the id. When A and then B were recorded and the analysis of B ends first,
  the record of A is as it was made, in status processing.
\<close>

theorem C5_update_by_id_frame:
  "length (analysisResolved i outcome prev) = length prev
   \<and> (\<forall>k<length prev. rec_id (prev ! k) \<noteq> i \<longrightarrow> analysisResolved i outcome prev ! k = prev ! k)
   \<and> (i \<notin> rec_id ` set prev \<longrightarrow> analysisResolved i outcome prev = prev)
   \<and> (idA \<noteq> idB \<longrightarrow>
        apply_actions [RecordingComplete idA n now blobA dA, RecordingComplete idB n' now' blobB dB,
                       AnalysisResolved idB outcome] rs0 ! 1 = newRecording idA n now blobA dA
        \<and> status (apply_actions [RecordingComplete idA n now blobA dA,
                       RecordingComplete idB n' now' blobB dB,
                       AnalysisResolved idB outcome] rs0 ! 1) = Processing
        \<and> status (apply_actions [RecordingComplete idA n now blobA dA,
                       RecordingComplete idB n' now' blobB dB,
                       AnalysisResolved idB outcome] rs0 ! 0)
            = (case outcome of Inr result \<Rightarrow> Completed | Inl error \<Rightarrow> Error))"
proof (intro conjI allI impI)
  show "length (analysisResolved i outcome prev) = length prev"
    by (rule analysisResolved_length)
next
  fix k assume "k < length prev" and "rec_id (prev ! k) \<noteq> i"
  then show "analysisResolved i outcome prev ! k = prev ! k"
    by (rule analysisResolved_other)
next
  assume "i \<notin> rec_id ` set prev"
  then show "analysisResolved i outcome prev = prev"
    by (rule analysisResolved_absent)
next
  let ?rs = "apply_actions [RecordingComplete idA n now blobA dA,
      RecordingComplete idB n' now' blobB dB, AnalysisResolved idB outcome] rs0"
  have run: "?rs = analysisResolved idB outcome
      (newRecording idB n' now' blobB dB # newRecording idA n now blobA dA # rs0)"
    by (simp add: apply_actions_def apply_action_def insertRecording_def)
  assume ne: "idA \<noteq> idB"
  have "?rs ! 1 = (newRecording idB n' now' blobB dB # newRecording idA n now blobA dA # rs0) ! 1"
    unfolding run using ne by (intro analysisResolved_other) (simp_all add: newRecording_def)
  then show a: "?rs ! 1 = newRecording idA n now blobA dA"
    by simp
  show "status (?rs ! 1) = Processing"
    unfolding a by (simp add: newRecording_def)
  show "status (?rs ! 0) = (case outcome of Inr result \<Rightarrow> Completed | Inl error \<Rightarrow> Error)"
    unfolding run
    by (cases outcome)
      (simp_all add: analysisResolved_def analysisSucceeded_def analysisFailed_def newRecording_def)
qed

theorem C5_update_by_id_frame_witness:
  "analysisResolved [0x62] (Inr scenario_result) [example_recording] = [example_recording]
   \<and> apply_actions [RecordingComplete [0x61] 0 0 example_blob 125,
        RecordingComplete [0x62] 1 0 example_blob 7,
        AnalysisResolved [0x62] (Inr scenario_result)] [] ! 1 = example_recording
   \<and> status example_recording = Processing
   \<and> status (apply_actions [RecordingComplete [0x61] 0 0 example_blob 125,
        RecordingComplete [0x62] 1 0 example_blob 7,
        AnalysisResolved [0x62] (Inr scenario_result)] [] ! 0) = Completed"
  using C5_update_by_id_frame [of "[0x62]" "Inr scenario_result" "[example_recording]"
      "[0x61]" "[0x62]" 0 0 example_blob 125 1 0 example_blob 7 "[]"]
  by (simp add: example_recording_def newRecording_def)

section \<open>C8: a finished capture adds one record at the head\<close>

lemma apply_captures:
  "\<forall>a\<in>set evs. is_capture a \<Longrightarrow> apply_actions evs rs = rev (concat (map captured evs)) @ rs"
proof (induction evs arbitrary: rs)
  case Nil
  then show ?case by (simp add: apply_actions_def)
next
  case (Cons a evs)
  from Cons.prems have "is_capture a" by simp
  then have "apply_action a rs = captured a @ rs"
    by (cases a) (simp_all add: apply_action_def insertRecording_def)
  moreover from Cons.prems
  have "apply_actions evs (apply_action a rs) = rev (concat (map captured evs)) @ apply_action a rs"
    by (intro Cons.IH) simp
  moreover from \<open>is_capture a\<close> have "rev (captured a) = captured a"
    by (cases a) simp_all
  ultimately show ?case
    by (simp add: apply_actions_Cons)
qed

lemma length_captured: "\<forall>a\<in>set evs. is_capture a \<Longrightarrow> length (concat (map captured evs)) = length evs"
proof (induction evs)
  case Nil
  then show ?case by simp
next
  case (Cons a evs)
  then have "length (captured a) = 1"
    by (cases a) simp_all
  with Cons show ?case by simp
qed

text \<open>
  C8: a capture-complete event puts the new record, in status processing and with the
  blob of the capture, in front of the list as it is at that moment, which grows by
  one; after any sequence of such events the list has grown by their number and starts
  with their records, the latest first.
\<close>

theorem C8_capture_inserts_at_head:
  "apply_action (RecordingComplete newId n now b d) rs = newRecording newId n now b d # rs
   \<and> recordings (step JSON_stringify (RecordingComplete newId n now b d) s)
       = newRecording newId n now b d # recordings s
   \<and> length (apply_action (RecordingComplete newId n now b d) rs) = length rs + 1
   \<and> rec_id (newRecording newId n now b d) = newId
   \<and> status (newRecording newId n now b d) = Processing
   \<and> audioBlob (newRecording newId n now b d) = Some (InMemory b)
   \<and> ((\<forall>a\<in>set evs. is_capture a) \<longrightarrow>
         length (apply_actions evs rs) = length rs + length evs
         \<and> apply_actions evs rs = rev (concat (map captured evs)) @ rs)"
proof -
  have one: "apply_action (RecordingComplete newId n now b d) rs = newRecording newId n now b d # rs"
    by (simp add: apply_action_def insertRecording_def)
  have app: "recordings (step JSON_stringify (RecordingComplete newId n now b d) s)
       = newRecording newId n now b d # recordings s"
    by (simp add: setRecordings_def insertRecording_def Let_def)
  have fields: "rec_id (newRecording newId n now b d) = newId
      \<and> status (newRecording newId n now b d) = Processing
      \<and> audioBlob (newRecording newId n now b d) = Some (InMemory b)"
    by (simp add: newRecording_def)
  have many: "(\<forall>a\<in>set evs. is_capture a) \<longrightarrow>
         length (apply_actions evs rs) = length rs + length evs
         \<and> apply_actions evs rs = rev (concat (map captured evs)) @ rs"
    by (simp add: apply_captures length_captured)
  have len: "length (apply_action (RecordingComplete newId n now b d) rs) = length rs + 1"
    by (simp add: one)
  from one app len fields many show ?thesis
    by blast
qed

theorem C8_capture_inserts_at_head_witness:
  "apply_actions [RecordingComplete [0x61] 0 0 example_blob 125,
        RecordingComplete [0x62] 1 0 example_blob 7] []
     = [newRecording [0x62] 1 0 example_blob 7, example_recording]
   \<and> length (apply_actions [RecordingComplete [0x61] 0 0 example_blob 125,
        RecordingComplete [0x62] 1 0 example_blob 7] []) = 2
   \<and> status (newRecording [0x62] 1 0 example_blob 7) = Processing"
  using C8_capture_inserts_at_head [of "[0x62]" 1 0 example_blob 7 "[]" "\<lambda>x. []" example_app
      "[RecordingComplete [0x61] 0 0 example_blob 125, RecordingComplete [0x62] 1 0 example_blob 7]"]
  by (simp add: example_recording_def)

section \<open>C2: records found in analysis at load\<close>

lemma initialRecordings_parsed:
  "store STORAGE_KEY = Some text \<Longrightarrow> text \<noteq> [] \<Longrightarrow> JSON_parse text = Inr (Records items) \<Longrightarrow>
   initialRecordings JSON_parse True store = map rehydrate_item items"
  by (simp add: initialRecordings_def try_parse_def)

lemma rehydrate_item_status: "status (rehydrate_item it) \<noteq> Processing"
  by (simp add: rehydrate_item_def)

text \<open>
  C2 as stated says that a record in another status than processing is left unchanged.
  It fails on a record without a folder: a completed record of an old snapshot comes
  back with the folder set to the default, so its stored form is no longer the one that
  was read.
\<close>

theorem C2_counterexample:
  "item_status legacy_item = Completed
   \<and> item_subject legacy_item = None
   \<and> map subject (initialRecordings (parse_as (Records [legacy_item])) True legacy_store)
       = [FALLBACK_SUBJECT]
   \<and> map toItem (initialRecordings (parse_as (Records [legacy_item])) True legacy_store)
       \<noteq> [legacy_item]"
  by (simp add: initialRecordings_def try_parse_def parse_as_def legacy_store_def
      legacy_item_def rehydrate_item_def toItem_def or_else_def)

text \<open>
  C2, amended: for every snapshot that parses to an array of records, loading turns
  each record stored in status processing into status error with the message that the
  processing was interrupted, and leaves the status and the error message of every
  other record as stored; id, title, date, duration, audio entry and notes are kept,
  and the folder is kept unless it is missing or empty, when it becomes the default.
  No loaded record is in status processing.
\<close>

theorem C2_rehydration:
  assumes "store STORAGE_KEY = Some text" and "text \<noteq> []"
    and "JSON_parse text = Inr (Records items)"
  shows "length (initialRecordings JSON_parse True store) = length items
   \<and> (\<forall>k<length items.
        (item_status (items ! k) = Processing \<longrightarrow>
           status (initialRecordings JSON_parse True store ! k) = Error
           \<and> errorMessage (initialRecordings JSON_parse True store ! k) = Some INTERRUPTED_MESSAGE)
      \<and> (item_status (items ! k) \<noteq> Processing \<longrightarrow>
           status (initialRecordings JSON_parse True store ! k) = item_status (items ! k)
           \<and> errorMessage (initialRecordings JSON_parse True store ! k)
               = item_errorMessage (items ! k))
      \<and> rec_id (initialRecordings JSON_parse True store ! k) = item_id (items ! k)
      \<and> title (initialRecordings JSON_parse True store ! k) = item_title (items ! k)
      \<and> date (initialRecordings JSON_parse True store ! k) = item_date (items ! k)
      \<and> duration (initialRecordings JSON_parse True store ! k) = item_duration (items ! k)
      \<and> audioBlob (initialRecordings JSON_parse True store ! k) = item_audioBlob (items ! k)
      \<and> data (initialRecordings JSON_parse True store ! k) = item_data (items ! k)
      \<and> subject (initialRecordings JSON_parse True store ! k)
          = (case item_subject (items ! k) of
               None \<Rightarrow> FALLBACK_SUBJECT
             | Some sub \<Rightarrow> if sub = [] then FALLBACK_SUBJECT else sub))
   \<and> (\<forall>r\<in>set (initialRecordings JSON_parse True store). status r \<noteq> Processing)"
proof -
  have eq: "initialRecordings JSON_parse True store = map rehydrate_item items"
    using assms by (rule initialRecordings_parsed)
  have "\<forall>r\<in>set (map rehydrate_item items). status r \<noteq> Processing"
    by (simp add: rehydrate_item_status)
  then show ?thesis
    unfolding eq by (simp add: rehydrate_item_def or_else_def)
qed

theorem C2_rehydration_witness:
  "map status (initialRecordings (parse_as (Records [interrupted_item, legacy_item])) True
      legacy_store) = [Error, Completed]
   \<and> map errorMessage (initialRecordings (parse_as (Records [interrupted_item, legacy_item])) True
      legacy_store) = [Some INTERRUPTED_MESSAGE, None]
   \<and> item_status interrupted_item = Processing"
  using C2_rehydration [of legacy_store "[0x5B, 0x2E, 0x2E, 0x2E, 0x5D]"
      "parse_as (Records [interrupted_item, legacy_item])" "[interrupted_item, legacy_item]"]
  by (simp add: initialRecordings_def try_parse_def parse_as_def legacy_store_def
      legacy_item_def interrupted_item_def rehydrate_item_def toItem_def example_recording_def
      newRecording_def)

section \<open>C10: no snapshot, or one that does not parse\<close>

text \<open>
  C10: when local storage has nothing under the key, or the text under it makes
  \<open>JSON.parse\<close> throw, the list of records starts empty; the error of the \<open>try\<close> block
  stops at its \<open>catch\<close>.
\<close>

theorem C10_empty_on_absent_or_malformed:
  "(store STORAGE_KEY = None \<longrightarrow> initialRecordings JSON_parse has_window store = [])
   \<and> (store STORAGE_KEY = Some text \<and> JSON_parse text = Inl e \<longrightarrow>
        try_parse JSON_parse text = Inl e
        \<and> initialRecordings JSON_parse has_window store = [])"
  by (simp add: initialRecordings_def try_parse_def)

theorem C10_empty_on_absent_or_malformed_witness:
  "initialRecordings parse_fails True Map.empty = []
   \<and> try_parse parse_fails [0x5B, 0x2E, 0x2E, 0x2E, 0x5D] = Inl SyntaxError
   \<and> initialRecordings parse_fails True legacy_store = []"
  using C10_empty_on_absent_or_malformed [of Map.empty parse_fails True]
    C10_empty_on_absent_or_malformed [of legacy_store parse_fails True
      "[0x5B, 0x2E, 0x2E, 0x2E, 0x5D]" SyntaxError]
  by (simp add: parse_fails_def legacy_store_def)

section \<open>C6: retrying an analysis\<close>

text \<open>
  C6 says that an operation to retry the analysis of a record in status error exists
  and runs the analysis again. In the code the detail view has a retry button bound to
  its \<open>onRetry\<close> property, and \<open>App\<close> passes no such property: a click on the button
  changes nothing, for a record in status error as for any other, and no analysis
  is started.
\<close>

theorem C6_retry_does_nothing:
  "onRetry (noteDetailProps r) = None
   \<and> retryClicked (noteDetailProps r) s = s
   \<and> status failed_recording = Error
   \<and> recordings (retryClicked (noteDetailProps failed_recording) failed_app) = [failed_recording]
   \<and> analyzeCalls (retryClicked (noteDetailProps failed_recording) failed_app) = [example_blob]"
  by (simp add: noteDetailProps_def retryClicked_def failed_recording_def failed_app_def)

section \<open>C7: the snapshot written after every change\<close>

lemma step_updater:
  "updater a = Some f \<Longrightarrow>
   recordings (step JSON_stringify a s) = f (recordings s)
   \<and> localStorage (step JSON_stringify a s)
       = (localStorage s)(STORAGE_KEY \<mapsto> JSON_stringify (map toItem (f (recordings s))))"
  by (cases a) (auto simp: setRecordings_def Let_def split: if_splits option.splits)

lemma step_no_updater: "updater a = None \<Longrightarrow> step JSON_stringify a s = s"
  by (cases a) (auto split: if_splits option.splits)

lemma decimal_1: "decimal (Suc 0) = [0x31]"
  by (simp add: decimal.simps)

text \<open>
  C7 says that every change of the list rewrites the whole snapshot, and that the
  snapshot holds no audio bytes and no in-memory audio reference, only the id. The
  rewriting holds, and no bytes are written. But \<open>JSON.stringify(recordings)\<close> leaves
  nothing out: the record made at the end of a capture is written with an \<open>audioBlob\<close>
  entry, the empty object. Loading keeps that entry (\<open>...item\<close>), and the detail view
  takes it for the in-memory audio and never asks the blob store.
\<close>

theorem C7_snapshot_keeps_audio_entry:
  "toItem example_recording =
     \<lparr>item_id = [0x61], item_title = TITLE_PREFIX @ [0x31],
      item_subject = Some FALLBACK_SUBJECT, item_date = 0, item_duration = 125,
      item_audioBlob = Some EmptyObject, item_status = Processing, item_data = None,
      item_errorMessage = None\<rparr>
   \<and> localStorage (step JSON_stringify (RecordingComplete [0x61] 0 0 example_blob 125) fresh_app)
       STORAGE_KEY = Some (JSON_stringify [toItem example_recording])
   \<and> map loadAudio (initialRecordings (parse_as (Records [toItem example_recording])) True
       legacy_store) = [CreateObjectURL EmptyObject]
   \<and> item_audioBlob (toItem (newRecording newId n now b d)) = Some EmptyObject
   \<and> audioBlob (rehydrate_item (toItem (newRecording newId n now b d))) = Some EmptyObject
   \<and> loadAudio (rehydrate_item (toItem (newRecording newId n now b d)))
       = CreateObjectURL EmptyObject"
proof -
  have item: "toItem example_recording =
     \<lparr>item_id = [0x61], item_title = TITLE_PREFIX @ [0x31],
      item_subject = Some FALLBACK_SUBJECT, item_date = 0, item_duration = 125,
      item_audioBlob = Some EmptyObject, item_status = Processing, item_data = None,
      item_errorMessage = None\<rparr>"
    by (simp add: toItem_def example_recording_def newRecording_def decimal_1)
  have written: "localStorage (step JSON_stringify (RecordingComplete [0x61] 0 0 example_blob 125)
       fresh_app) STORAGE_KEY = Some (JSON_stringify [toItem example_recording])"
    by (simp add: setRecordings_def insertRecording_def Let_def fresh_app_def
        example_recording_def)
  have kept: "audioBlob (rehydrate_item (toItem (newRecording newId n now b d))) = Some EmptyObject"
    for newId n now b d
    by (simp add: rehydrate_item_def toItem_def newRecording_def)
  have loaded: "initialRecordings (parse_as (Records [toItem example_recording])) True legacy_store
      = [rehydrate_item (toItem example_recording)]"
    by (simp add: initialRecordings_def try_parse_def parse_as_def legacy_store_def)
  have shown: "loadAudio (rehydrate_item (toItem (newRecording newId n now b d)))
       = CreateObjectURL EmptyObject" for newId n now b d
    by (simp add: loadAudio_def kept)
  have entry: "item_audioBlob (toItem (newRecording newId n now b d)) = Some EmptyObject"
    by (simp add: toItem_def newRecording_def)
  have reload: "map loadAudio (initialRecordings (parse_as (Records [toItem example_recording]))
       True legacy_store) = [CreateObjectURL EmptyObject]"
    unfolding loaded by (simp add: example_recording_def shown)
  from item written reload entry kept shown show ?thesis
    by blast
qed

end
